theory Spec2Isabelle
  imports Complex_Main
begin

section \<open>Raster window extraction over the CONUS grid\<close>

text \<open>
  Shallow embedding of the coordinate transform, the geometry projector and the raster
  window extractor of \<^verbatim>\<open>utils/raster_utils.py\<close>.

  Numbers are modelled as rationals (\<^typ>\<open>rat\<close>): every finite Python float is a
  rational, and the arithmetic below is the exact arithmetic that the floating-point
  operations of the source approximate. Rounding, infinities and NaN are outside the
  model. Python integers are \<^typ>\<open>int\<close>.
\<close>

subsection \<open>Grid constants\<close>

definition CONUS_LON_MIN :: int where "CONUS_LON_MIN = -125"
definition CONUS_LON_MAX :: int where "CONUS_LON_MAX = -66"
definition CONUS_LAT_MIN :: int where "CONUS_LAT_MIN = 24"
definition CONUS_LAT_MAX :: int where "CONUS_LAT_MAX = 50"
definition GRID_WIDTH :: int where "GRID_WIDTH = 6435"
definition GRID_HEIGHT :: int where "GRID_HEIGHT = 2767"

subsection \<open>Coordinate transform\<close>

definition lonlat_to_pixel :: "rat \<Rightarrow> rat \<Rightarrow> rat \<times> rat" where
  "lonlat_to_pixel lon lat =
     (let px = (lon - of_int CONUS_LON_MIN) / of_int (CONUS_LON_MAX - CONUS_LON_MIN)
                 * of_int GRID_WIDTH;
          py = (of_int CONUS_LAT_MAX - lat) / of_int (CONUS_LAT_MAX - CONUS_LAT_MIN)
                 * of_int GRID_HEIGHT
      in (px, py))"

definition pixel_to_lonlat :: "rat \<Rightarrow> rat \<Rightarrow> rat \<times> rat" where
  "pixel_to_lonlat px py =
     (let lon = of_int CONUS_LON_MIN
                  + px / of_int GRID_WIDTH * of_int (CONUS_LON_MAX - CONUS_LON_MIN);
          lat = of_int CONUS_LAT_MAX
                  - py / of_int GRID_HEIGHT * of_int (CONUS_LAT_MAX - CONUS_LAT_MIN)
      in (lon, lat))"

subsection \<open>Errors and attribute probing\<close>

text \<open>
  The exceptions that the modelled code can raise. \<^verbatim>\<open>hasattr(obj, name)\<close> reads
  the attribute: it answers \<open>False\<close> when the read raises \<^verbatim>\<open>AttributeError\<close>,
  \<open>True\<close> when the read returns a value, and it lets every other exception through.
  An attribute of an object is therefore absent, or raises when it is read, or is
  present with a value.
\<close>

datatype error = IndexError | NotImplementedError | ValueError | AttributeError

datatype 'a attr = Absent | Raises error | Present 'a

subsection \<open>Geometries\<close>

text \<open>
  A geometry object is a record of the attributes the source reads: the bounding box
  \<^verbatim>\<open>bounds = (minx, miny, maxx, maxy)\<close>, which every geometry has, and the two
  coordinate sequences \<^verbatim>\<open>exterior.coords\<close> (polygons) and \<^verbatim>\<open>coords\<close>
  (lines, rings and points). In shapely a polygon has \<^verbatim>\<open>exterior\<close>; a line, a ring
  and a point have \<^verbatim>\<open>coords\<close> and no \<^verbatim>\<open>exterior\<close>; a multi-part geometry
  (MultiPolygon, MultiLineString, MultiPoint, GeometryCollection) has no
  \<^verbatim>\<open>exterior\<close>, and reading its \<^verbatim>\<open>coords\<close> raises
  \<^verbatim>\<open>NotImplementedError\<close>. A vertex is a tuple of two or three numbers (lon, lat
  and an optional height); a pixel coordinate is a pair.
\<close>

type_synonym vertex = "rat list"
type_synonym coord = "rat \<times> rat"

record geom =
  bounds :: "rat \<times> rat \<times> rat \<times> rat"
  exterior :: "vertex list attr"
  coords :: "vertex list attr"

text \<open>
  The argument of the extractor is either such a geometry (no \<^verbatim>\<open>geometry\<close>
  attribute), or an object whose \<^verbatim>\<open>geometry\<close> attribute is a series with
  \<^verbatim>\<open>iloc\<close> (a GeoDataFrame; the list holds its rows), or an object whose
  \<^verbatim>\<open>geometry\<close> attribute is a geometry without \<^verbatim>\<open>iloc\<close>.
\<close>

datatype geometry_arg = Shape geom | Frame "geom list" | Holder geom

definition iloc0 :: "'a list \<Rightarrow> error + 'a" where
  "iloc0 rows = (case rows of [] \<Rightarrow> Inl IndexError | r # _ \<Rightarrow> Inr r)"

text \<open>
  shapely's \<^verbatim>\<open>box(minx, miny, maxx, maxy)\<close>: the rectangular polygon with a
  counter-clockwise closed ring, used by \<^verbatim>\<open>extract_raster_for_bounds\<close>. Reading
  \<^verbatim>\<open>coords\<close> of a polygon raises \<^verbatim>\<open>NotImplementedError\<close>.
\<close>

definition box :: "rat \<Rightarrow> rat \<Rightarrow> rat \<Rightarrow> rat \<Rightarrow> geom" where
  "box minx miny maxx maxy =
     \<lparr> bounds = (min minx maxx, min miny maxy, max minx maxx, max miny maxy),
       exterior = Present [[maxx, miny], [maxx, maxy], [minx, maxy], [minx, miny], [maxx, miny]],
       coords = Raises NotImplementedError \<rparr>"

subsection \<open>Geometry-to-pixel projector\<close>

text \<open>
  The \<^verbatim>\<open>for lon, lat in coords\<close> loop, appending to \<^verbatim>\<open>pixel_coords\<close>.
  Unpacking a vertex that does not have exactly two components raises
  \<^verbatim>\<open>ValueError\<close>.
\<close>

fun project_loop :: "vertex list \<Rightarrow> rat \<Rightarrow> rat \<Rightarrow> coord list \<Rightarrow> error + coord list" where
  "project_loop [] x_offset y_offset pixel_coords = Inr pixel_coords"
| "project_loop (v # rest) x_offset y_offset pixel_coords =
     (case v of
        [lon, lat] \<Rightarrow>
          (case lonlat_to_pixel lon lat of (px, py) \<Rightarrow>
             project_loop rest x_offset y_offset
               (pixel_coords @ [(px - x_offset, py - y_offset)]))
      | _ \<Rightarrow> Inl ValueError)"

text \<open>
  \<^verbatim>\<open>if hasattr(geometry, 'exterior') ... elif hasattr(geometry, 'coords') ... else
  return []\<close>: each probe that raises anything but \<^verbatim>\<open>AttributeError\<close> ends the
  call with that exception.
\<close>

definition geometry_to_pixel_coords :: "geom \<Rightarrow> rat \<Rightarrow> rat \<Rightarrow> error + coord list" where
  "geometry_to_pixel_coords geometry x_offset y_offset =
     (case exterior geometry of
        Present ring \<Rightarrow> project_loop ring x_offset y_offset []
      | Raises e \<Rightarrow> Inl e
      | Absent \<Rightarrow>
          (case coords geometry of
             Present cs \<Rightarrow> project_loop cs x_offset y_offset []
           | Raises e \<Rightarrow> Inl e
           | Absent \<Rightarrow> Inr []))"

subsection \<open>Datasets and slicing\<close>

text \<open>
  A data variable is a 2-D array with dimensions \<open>(y, x)\<close>: a list of rows, row 0 the
  northern edge. \<^verbatim>\<open>ds.data_vars\<close> is a map from names to arrays.
\<close>

type_synonym 'a array2d = "'a list list"
type_synonym 'a dataset = "string \<rightharpoonup> 'a array2d"

text \<open>Python's \<^verbatim>\<open>slice(lo, hi)\<close> on a sequence of length \<open>n\<close>.\<close>

definition slice_index :: "int \<Rightarrow> nat \<Rightarrow> nat" where
  "slice_index i n = (if i < 0 then nat (max (i + int n) 0) else min (nat i) n)"

definition py_slice :: "int \<Rightarrow> int \<Rightarrow> 'a list \<Rightarrow> 'a list" where
  "py_slice lo hi xs =
     (let a = slice_index lo (length xs); b = slice_index hi (length xs)
      in take (b - a) (drop a xs))"

text \<open>\<^verbatim>\<open>.isel(x=slice(x0, x1), y=slice(y0, y1)).values\<close>\<close>

definition isel :: "'a array2d \<Rightarrow> int \<times> int \<Rightarrow> int \<times> int \<Rightarrow> 'a array2d" where
  "isel a xs ys = map (py_slice (fst xs) (snd xs)) (py_slice (fst ys) (snd ys) a)"

definition shape :: "'a array2d \<Rightarrow> int \<times> int" where
  "shape a = (int (length a), (case a of [] \<Rightarrow> 0 | r # _ \<Rightarrow> int (length r)))"

definition grid_shaped :: "'a array2d \<Rightarrow> bool" where
  "grid_shaped a \<longleftrightarrow>
     int (length a) = GRID_HEIGHT \<and> list_all (\<lambda>r. int (length r) = GRID_WIDTH) a"

subsection \<open>Raster window extractor\<close>

text \<open>Python's \<^verbatim>\<open>int()\<close> on a number: truncation towards zero.\<close>

definition py_int :: "rat \<Rightarrow> int" where
  "py_int x = (if 0 \<le> x then \<lfloor>x\<rfloor> else \<lceil>x\<rceil>)"

type_synonym window = "int \<times> int \<times> int \<times> int"
type_synonym 'a extraction = "'a array2d option \<times> window option \<times> geom option"

definition resolve_geometry :: "geometry_arg \<Rightarrow> error + geom" where
  "resolve_geometry geometry =
     (case geometry of
        Frame rows \<Rightarrow> iloc0 rows
      | Holder g \<Rightarrow> Inr g
      | Shape g \<Rightarrow> Inr g)"

definition extract_raster_for_geometry ::
  "'a dataset \<Rightarrow> string \<Rightarrow> geometry_arg \<Rightarrow> rat \<Rightarrow> error + 'a extraction" where
  "extract_raster_for_geometry ds variable_name geometry buffer_km =
     (case resolve_geometry geometry of
        Inl e \<Rightarrow> Inl e
      | Inr geom \<Rightarrow>
          (case bounds geom of (minx, miny, maxx, maxy) \<Rightarrow>
             let buffer_deg = buffer_km / 111;
                 lon_min = minx - buffer_deg;
                 lon_max = maxx + buffer_deg;
                 lat_min = miny - buffer_deg;
                 lat_max = maxy + buffer_deg
             in (case lonlat_to_pixel lon_min lat_max of (x_min0, y_max_pix) \<Rightarrow>
                (case lonlat_to_pixel lon_max lat_min of (x_max0, y_min_pix) \<Rightarrow>
                   let x_min = py_int (max 0 (min x_min0 (of_int (GRID_WIDTH - 1))));
                       x_max = py_int (max 0 (min x_max0 (of_int (GRID_WIDTH - 1))));
                       y_min = py_int (max 0 (min y_max_pix (of_int (GRID_HEIGHT - 1))));
                       y_max = py_int (max 0 (min y_min_pix (of_int (GRID_HEIGHT - 1))))
                   in if x_max \<le> x_min \<or> y_max \<le> y_min then Inr (None, None, None)
                      else (case ds variable_name of
                              Some var \<Rightarrow>
                                Inr (Some (isel var (x_min, x_max) (y_min, y_max)),
                                     Some (x_min, x_max, y_min, y_max),
                                     Some geom)
                            | None \<Rightarrow> Inr (None, None, None))))))"

definition extract_raster_for_bounds ::
  "'a dataset \<Rightarrow> string \<Rightarrow> rat \<Rightarrow> rat \<Rightarrow> rat \<Rightarrow> rat \<Rightarrow> error + 'a extraction" where
  "extract_raster_for_bounds ds variable_name lon_min lon_max lat_min lat_max =
     extract_raster_for_geometry ds variable_name (Shape (box lon_min lat_min lon_max lat_max)) 0"

subsection \<open>The clamped pixel window\<close>

text \<open>
  The window that \<^verbatim>\<open>extract_raster_for_geometry\<close> computes from the resolved
  geometry and the buffer before it tests for degeneracy (the buffering, the two corner
  conversions and the four clamps), named so that properties can refer to it;
  \<open>extract_window\<close> below relates it to the extractor.
\<close>

definition clamp_x :: "rat \<Rightarrow> int" where
  "clamp_x p = py_int (max 0 (min p (of_int (GRID_WIDTH - 1))))"

definition clamp_y :: "rat \<Rightarrow> int" where
  "clamp_y p = py_int (max 0 (min p (of_int (GRID_HEIGHT - 1))))"

definition pixel_window :: "geom \<Rightarrow> rat \<Rightarrow> window" where
  "pixel_window geom buffer_km =
     (case bounds geom of (minx, miny, maxx, maxy) \<Rightarrow>
        (clamp_x (fst (lonlat_to_pixel (minx - buffer_km / 111) (maxy + buffer_km / 111))),
         clamp_x (fst (lonlat_to_pixel (maxx + buffer_km / 111) (miny - buffer_km / 111))),
         clamp_y (snd (lonlat_to_pixel (minx - buffer_km / 111) (maxy + buffer_km / 111))),
         clamp_y (snd (lonlat_to_pixel (maxx + buffer_km / 111) (miny - buffer_km / 111)))))"

text \<open>
  A bounding box lies outside the Grid extent when it is wholly west, east, south or north
  of it.
\<close>

definition bbox_outside :: "rat \<times> rat \<times> rat \<times> rat \<Rightarrow> bool" where
  "bbox_outside b =
     (case b of (minx, miny, maxx, maxy) \<Rightarrow>
        maxx < of_int CONUS_LON_MIN \<or> of_int CONUS_LON_MAX < minx \<or>
        maxy < of_int CONUS_LAT_MIN \<or> of_int CONUS_LAT_MAX < miny)"

subsection \<open>The extractor over the object store\<close>

text \<open>
  Python passes objects by reference, and a callee can write to every object it can
  reach. To state what a call does to the objects of its caller,
  \<^verbatim>\<open>extract_raster_for_geometry\<close> is embedded a second time, over an explicit store
  of objects: the dataset and the geometry arguments are references, every attribute
  read and index read is a look-up in the store, and \<^verbatim>\<open>.isel(...).values\<close> makes a
  new array object. The result holds references: to the new array and to the geometry
  object. A reference is an index into the store; only a new object extends the store.
  \<open>extract_store_refines\<close> below relates this embedding to the one over values.
\<close>

type_synonym ref = nat

datatype 'a obj =
    GeomObj geom
  | FrameObj "ref list"
  | HolderObj ref
  | DatasetObj "string \<rightharpoonup> ref"
  | ArrayObj "'a array2d"

type_synonym 'a store = "'a obj list"

definition deref :: "'a store \<Rightarrow> ref \<Rightarrow> 'a obj option" where
  "deref st r = (if r < length st then Some (st ! r) else None)"

definition new_obj :: "'a store \<Rightarrow> 'a obj \<Rightarrow> ref \<times> 'a store" where
  "new_obj st ob = (length st, st @ [ob])"

text \<open>
  The first statement of the extractor: the reference bound to \<^verbatim>\<open>geom\<close>. An object
  without a \<^verbatim>\<open>geometry\<close> attribute is taken as it is.
\<close>

definition resolve_ref :: "'a store \<Rightarrow> ref \<Rightarrow> error + ref" where
  "resolve_ref st geometry =
     (case deref st geometry of
        Some (FrameObj rows) \<Rightarrow> iloc0 rows
      | Some (HolderObj g) \<Rightarrow> Inr g
      | _ \<Rightarrow> Inr geometry)"

text \<open>
  Reading \<^verbatim>\<open>bounds\<close> of an object that is not a geometry, \<^verbatim>\<open>data_vars\<close> of one
  that is not a dataset, or slicing one that is not an array, raises
  \<^verbatim>\<open>AttributeError\<close>. The window is computed from the bounds as in
  \<open>pixel_window\<close>.
\<close>

definition extract_raster_for_geometry_store ::
  "'a store \<Rightarrow> ref \<Rightarrow> string \<Rightarrow> ref \<Rightarrow> rat
     \<Rightarrow> (error + ref option \<times> window option \<times> ref option) \<times> 'a store" where
  "extract_raster_for_geometry_store st ds variable_name geometry buffer_km =
     (case resolve_ref st geometry of
        Inl e \<Rightarrow> (Inl e, st)
      | Inr geom \<Rightarrow>
          (case deref st geom of
             Some (GeomObj g) \<Rightarrow>
               (case pixel_window g buffer_km of (x_min, x_max, y_min, y_max) \<Rightarrow>
                  if x_max \<le> x_min \<or> y_max \<le> y_min then (Inr (None, None, None), st)
                  else
                    (case deref st ds of
                       Some (DatasetObj data_vars) \<Rightarrow>
                         (case data_vars variable_name of
                            Some v \<Rightarrow>
                              (case deref st v of
                                 Some (ArrayObj a) \<Rightarrow>
                                   (case new_obj st
                                           (ArrayObj (isel a (x_min, x_max) (y_min, y_max))) of
                                      (data, st') \<Rightarrow>
                                        (Inr (Some data, Some (x_min, x_max, y_min, y_max),
                                              Some geom), st'))
                               | _ \<Rightarrow> (Inl AttributeError, st))
                          | None \<Rightarrow> (Inr (None, None, None), st))
                     | _ \<Rightarrow> (Inl AttributeError, st)))
           | _ \<Rightarrow> (Inl AttributeError, st)))"

text \<open>
  Reading a store back as values: the argument a reference stands for, the dataset a
  reference stands for, and the result with its references followed.
\<close>

definition geom_at :: "'a store \<Rightarrow> ref \<Rightarrow> geom option" where
  "geom_at st r = (case deref st r of Some (GeomObj g) \<Rightarrow> Some g | _ \<Rightarrow> None)"

definition array_at :: "'a store \<Rightarrow> ref \<Rightarrow> 'a array2d option" where
  "array_at st r = (case deref st r of Some (ArrayObj a) \<Rightarrow> Some a | _ \<Rightarrow> None)"

definition arg_at :: "'a store \<Rightarrow> ref \<Rightarrow> geometry_arg option" where
  "arg_at st r =
     (case deref st r of
        Some (GeomObj g) \<Rightarrow> Some (Shape g)
      | Some (HolderObj r') \<Rightarrow> map_option Holder (geom_at st r')
      | Some (FrameObj rows) \<Rightarrow>
          (if list_all (\<lambda>r'. geom_at st r' \<noteq> None) rows
           then Some (Frame (map (\<lambda>r'. the (geom_at st r')) rows)) else None)
      | _ \<Rightarrow> None)"

definition dataset_at :: "'a store \<Rightarrow> (string \<rightharpoonup> ref) \<Rightarrow> 'a dataset" where
  "dataset_at st data_vars =
     (\<lambda>name. case data_vars name of None \<Rightarrow> None | Some v \<Rightarrow> array_at st v)"

definition result_at ::
  "'a store \<Rightarrow> (error + ref option \<times> window option \<times> ref option) \<Rightarrow> error + 'a extraction" where
  "result_at st res =
     (case res of
        Inl e \<Rightarrow> Inl e
      | Inr (data, window, geom) \<Rightarrow>
          Inr (case data of None \<Rightarrow> None | Some d \<Rightarrow> array_at st d,
               window,
               case geom of None \<Rightarrow> None | Some g \<Rightarrow> geom_at st g))"

section \<open>Properties\<close>

lemma project_loop_map:
  assumes "list_all (\<lambda>v. length v = 2) cs"
  shows "project_loop cs xo yo acc =
     Inr (acc @ map (\<lambda>v. (fst (lonlat_to_pixel (v ! 0) (v ! 1)) - xo,
                         snd (lonlat_to_pixel (v ! 0) (v ! 1)) - yo)) cs)"
  using assms
proof (induction cs arbitrary: acc)
  case Nil
  then show ?case by simp
next
  case (Cons v cs)
  from Cons.prems obtain lon lat where v: "v = [lon, lat]"
    by (cases v; cases "tl v"; cases "tl (tl v)") auto
  from Cons.prems have "list_all (\<lambda>v. length v = 2) cs"
    by simp
  from Cons.IH[OF this] show ?case
    by (simp add: v split: prod.splits)
qed

lemma project_loop_bad_vertex:
  assumes "v \<in> set cs" and "length v \<noteq> 2"
  shows "project_loop cs xo yo acc = Inl ValueError"
  using assms
proof (induction cs arbitrary: acc)
  case Nil
  then show ?case by simp
next
  case (Cons u cs)
  show ?case
  proof (cases "length u = 2")
    case True
    then obtain lon lat where u: "u = [lon, lat]"
      by (cases u; cases "tl u"; cases "tl (tl u)") auto
    with Cons.prems True have "v \<in> set cs"
      by auto
    from Cons.IH[OF this Cons.prems(2)] show ?thesis
      by (simp add: u split: prod.splits)
  next
    case False
    then show ?thesis
      by (cases u; cases "tl u"; cases "tl (tl u)") auto
  qed
qed

text \<open>
  On a geometry whose probes do not raise and whose vertices are all pairs, the projector
  returns the vertices of the exterior ring, else of the coordinate sequence, each mapped
  through \<^verbatim>\<open>lonlat_to_pixel\<close> and shifted by the offsets, in order; with neither
  sequence it returns the empty list.
\<close>

lemma projector_maps_vertices:
  "exterior geometry = Present ring \<Longrightarrow> list_all (\<lambda>v. length v = 2) ring \<Longrightarrow>
     geometry_to_pixel_coords geometry xo yo =
       Inr (map (\<lambda>v. (fst (lonlat_to_pixel (v ! 0) (v ! 1)) - xo,
                      snd (lonlat_to_pixel (v ! 0) (v ! 1)) - yo)) ring)"
  "exterior geometry = Absent \<Longrightarrow> coords geometry = Present cs \<Longrightarrow>
     list_all (\<lambda>v. length v = 2) cs \<Longrightarrow>
     geometry_to_pixel_coords geometry xo yo =
       Inr (map (\<lambda>v. (fst (lonlat_to_pixel (v ! 0) (v ! 1)) - xo,
                      snd (lonlat_to_pixel (v ! 0) (v ! 1)) - yo)) cs)"
  "exterior geometry = Absent \<Longrightarrow> coords geometry = Absent \<Longrightarrow>
     geometry_to_pixel_coords geometry xo yo = Inr []"
  by (simp_all add: geometry_to_pixel_coords_def project_loop_map)

subsection \<open>Auxiliary facts\<close>

lemmas grid_defs = CONUS_LON_MIN_def CONUS_LON_MAX_def CONUS_LAT_MIN_def CONUS_LAT_MAX_def
  GRID_WIDTH_def GRID_HEIGHT_def

lemma px_eq: "fst (lonlat_to_pixel lon lat) = (lon + 125) / 59 * 6435"
  by (simp add: lonlat_to_pixel_def grid_defs)

lemma py_eq: "snd (lonlat_to_pixel lon lat) = (50 - lat) / 26 * 2767"
  by (simp add: lonlat_to_pixel_def grid_defs)

lemma px_mono: "lon1 \<le> lon2 \<Longrightarrow> fst (lonlat_to_pixel lon1 lat1) \<le> fst (lonlat_to_pixel lon2 lat2)"
  by (simp add: px_eq)

lemma py_antimono: "lat1 \<le> lat2 \<Longrightarrow> snd (lonlat_to_pixel lon2 lat2) \<le> snd (lonlat_to_pixel lon1 lat1)"
  by (simp add: py_eq)

lemma py_int_nonneg: "0 \<le> x \<Longrightarrow> py_int x = \<lfloor>x\<rfloor>"
  by (simp add: py_int_def)

lemma clamp_x_floor: "clamp_x p = \<lfloor>max 0 (min p 6434)\<rfloor>"
  by (simp add: clamp_x_def py_int_def grid_defs)

lemma clamp_y_floor: "clamp_y p = \<lfloor>max 0 (min p 2766)\<rfloor>"
  by (simp add: clamp_y_def py_int_def grid_defs)

lemma clamp_x_bounds: "0 \<le> clamp_x p \<and> clamp_x p \<le> GRID_WIDTH - 1"
proof -
  have "\<lfloor>max 0 (min p 6434)\<rfloor> < 6435"
    by (simp add: floor_less_iff)
  then show ?thesis
    by (simp add: clamp_x_floor grid_defs)
qed

lemma clamp_y_bounds: "0 \<le> clamp_y p \<and> clamp_y p \<le> GRID_HEIGHT - 1"
proof -
  have "\<lfloor>max 0 (min p 2766)\<rfloor> < 2767"
    by (simp add: floor_less_iff)
  then show ?thesis
    by (simp add: clamp_y_floor grid_defs)
qed

lemma clamp_x_mono: "p \<le> q \<Longrightarrow> clamp_x p \<le> clamp_x q"
  unfolding clamp_x_floor by (rule floor_mono) auto

lemma clamp_y_mono: "p \<le> q \<Longrightarrow> clamp_y p \<le> clamp_y q"
  unfolding clamp_y_floor by (rule floor_mono) auto

lemma extract_window:
  "extract_raster_for_geometry ds v g b =
     (case resolve_geometry g of
        Inl e \<Rightarrow> Inl e
      | Inr geom \<Rightarrow>
          (case pixel_window geom b of (x_min, x_max, y_min, y_max) \<Rightarrow>
             if x_max \<le> x_min \<or> y_max \<le> y_min then Inr (None, None, None)
             else (case ds v of
                     Some var \<Rightarrow>
                       Inr (Some (isel var (x_min, x_max) (y_min, y_max)),
                            Some (x_min, x_max, y_min, y_max), Some geom)
                   | None \<Rightarrow> Inr (None, None, None))))"
  by (simp add: extract_raster_for_geometry_def pixel_window_def clamp_x_def clamp_y_def Let_def
           split: sum.splits prod.splits option.splits)

lemma extract_empty_frame:
  "extract_raster_for_geometry ds v (Frame []) b = Inl IndexError"
  by (simp add: extract_raster_for_geometry_def resolve_geometry_def iloc0_def)

lemma extract_success:
  assumes "extract_raster_for_geometry ds v g b = Inr (d, Some (x_min, x_max, y_min, y_max), gm)"
  shows "\<exists>geom a. resolve_geometry g = Inr geom \<and> ds v = Some a
           \<and> pixel_window geom b = (x_min, x_max, y_min, y_max)
           \<and> x_min < x_max \<and> y_min < y_max
           \<and> d = Some (isel a (x_min, x_max) (y_min, y_max)) \<and> gm = Some geom"
  using assms
  by (auto simp: extract_window split: sum.splits prod.splits option.splits if_splits)

lemma pixel_window_bounds:
  assumes "pixel_window geom b = (x_min, x_max, y_min, y_max)"
  shows "0 \<le> x_min \<and> x_min \<le> GRID_WIDTH - 1 \<and> 0 \<le> x_max \<and> x_max \<le> GRID_WIDTH - 1
       \<and> 0 \<le> y_min \<and> y_min \<le> GRID_HEIGHT - 1 \<and> 0 \<le> y_max \<and> y_max \<le> GRID_HEIGHT - 1"
  using assms clamp_x_bounds clamp_y_bounds
  by (auto simp: pixel_window_def split: prod.splits)

lemma pixel_window_mono:
  assumes "b1 \<le> b2"
    and "pixel_window geom b1 = (x_min1, x_max1, y_min1, y_max1)"
    and "pixel_window geom b2 = (x_min2, x_max2, y_min2, y_max2)"
  shows "x_min2 \<le> x_min1 \<and> x_max1 \<le> x_max2 \<and> y_min2 \<le> y_min1 \<and> y_max1 \<le> y_max2"
proof -
  obtain minx miny maxx maxy where bb: "bounds geom = (minx, miny, maxx, maxy)"
    by (cases "bounds geom") auto
  from assms(1) have le: "b1 / 111 \<le> b2 / 111"
    by simp
  have "clamp_x (fst (lonlat_to_pixel (minx - b2 / 111) (maxy + b2 / 111)))
          \<le> clamp_x (fst (lonlat_to_pixel (minx - b1 / 111) (maxy + b1 / 111)))"
    using le by (intro clamp_x_mono px_mono) simp
  moreover have "clamp_x (fst (lonlat_to_pixel (maxx + b1 / 111) (miny - b1 / 111)))
          \<le> clamp_x (fst (lonlat_to_pixel (maxx + b2 / 111) (miny - b2 / 111)))"
    using le by (intro clamp_x_mono px_mono) simp
  moreover have "clamp_y (snd (lonlat_to_pixel (minx - b2 / 111) (maxy + b2 / 111)))
          \<le> clamp_y (snd (lonlat_to_pixel (minx - b1 / 111) (maxy + b1 / 111)))"
    using le by (intro clamp_y_mono py_antimono) simp
  moreover have "clamp_y (snd (lonlat_to_pixel (maxx + b1 / 111) (miny - b1 / 111)))
          \<le> clamp_y (snd (lonlat_to_pixel (maxx + b2 / 111) (miny - b2 / 111)))"
    using le by (intro clamp_y_mono py_antimono) simp
  ultimately show ?thesis
    using assms(2,3) by (simp add: pixel_window_def bb)
qed

lemma pixel_window_outside:
  assumes "bbox_outside (bounds geom)"
    and "pixel_window geom 0 = (x_min, x_max, y_min, y_max)"
  shows "x_max \<le> x_min \<or> y_max \<le> y_min"
proof -
  obtain minx miny maxx maxy where bb: "bounds geom = (minx, miny, maxx, maxy)"
    by (cases "bounds geom") auto
  have w: "x_min = clamp_x (fst (lonlat_to_pixel minx maxy))"
          "x_max = clamp_x (fst (lonlat_to_pixel maxx miny))"
          "y_min = clamp_y (snd (lonlat_to_pixel minx maxy))"
          "y_max = clamp_y (snd (lonlat_to_pixel maxx miny))"
    using assms(2) by (simp_all add: pixel_window_def bb)
  from assms(1) consider "maxx < -125" | "-66 < minx" | "maxy < 24" | "50 < miny"
    by (auto simp: bbox_outside_def bb grid_defs)
  then show ?thesis
  proof cases
    case 1
    then have "x_max = 0"
      by (simp add: w clamp_x_floor px_eq max_def min_def)
    with pixel_window_bounds[OF assms(2)] show ?thesis by simp
  next
    case 2
    then have "x_min = 6434"
      by (simp add: w clamp_x_floor px_eq max_def min_def)
    with pixel_window_bounds[OF assms(2)] show ?thesis by (simp add: grid_defs)
  next
    case 3
    then have "y_min = 2766"
      by (simp add: w clamp_y_floor py_eq max_def min_def)
    with pixel_window_bounds[OF assms(2)] show ?thesis by (simp add: grid_defs)
  next
    case 4
    then have "y_max = 0"
      by (simp add: w clamp_y_floor py_eq max_def min_def)
    with pixel_window_bounds[OF assms(2)] show ?thesis by simp
  qed
qed


lemma py_slice_length:
  assumes "0 \<le> lo" "lo \<le> hi" "hi \<le> int (length xs)"
  shows "int (length (py_slice lo hi xs)) = hi - lo"
proof -
  from assms have a: "slice_index lo (length xs) = nat lo"
    and b: "slice_index hi (length xs) = nat hi"
    by (auto simp: slice_index_def)
  from assms have "min (length xs - nat lo) (nat hi - nat lo) = nat hi - nat lo"
    by linarith
  with assms show ?thesis
    by (simp add: py_slice_def a b Let_def)
qed

lemma py_slice_subset: "set (py_slice lo hi xs) \<subseteq> set xs"
  by (auto simp: py_slice_def Let_def dest: in_set_takeD in_set_dropD)

lemma isel_shape:
  assumes "grid_shaped a"
    and "0 \<le> x_min" "x_min < x_max" "x_max \<le> GRID_WIDTH"
    and "0 \<le> y_min" "y_min < y_max" "y_max \<le> GRID_HEIGHT"
  shows "shape (isel a (x_min, x_max) (y_min, y_max)) = (y_max - y_min, x_max - x_min)"
proof -
  let ?rows = "py_slice y_min y_max a"
  from assms have len: "int (length ?rows) = y_max - y_min"
    by (intro py_slice_length) (simp_all add: grid_shaped_def)
  with assms obtain r rs where rows: "?rows = r # rs"
    by (cases ?rows) auto
  have "r \<in> set a"
    using py_slice_subset[of y_min y_max a] rows by auto
  with assms(1) have "int (length r) = GRID_WIDTH"
    by (simp add: grid_shaped_def list_all_iff)
  with assms have "int (length (py_slice x_min x_max r)) = x_max - x_min"
    by (intro py_slice_length) simp_all
  with len rows show ?thesis
    by (simp add: shape_def isel_def)
qed

lemma extract_box_5:
  assumes "ds v = Some a"
  shows "extract_raster_for_geometry ds v (Shape (box (-112.5) 33.5 (-111.5) 34)) 5 =
           Inr (Some (isel a (1358, 1477) (1697, 1760)), Some (1358, 1477, 1697, 1760),
                Some (box (-112.5) 33.5 (-111.5) 34))"
proof -
  have "pixel_window (box (-112.5) 33.5 (-111.5) 34) 5 = (1358, 1477, 1697, 1760)"
    by (simp add: pixel_window_def box_def clamp_x_floor clamp_y_floor px_eq py_eq floor_eq_iff)
  with assms show ?thesis
    by (simp add: extract_window resolve_geometry_def)
qed

lemma extract_box_20:
  assumes "ds v = Some a"
  shows "extract_raster_for_geometry ds v (Shape (box (-112.5) 33.5 (-111.5) 34)) 20 =
           Inr (Some (isel a (1343, 1492) (1683, 1775)), Some (1343, 1492, 1683, 1775),
                Some (box (-112.5) 33.5 (-111.5) 34))"
proof -
  have "pixel_window (box (-112.5) 33.5 (-111.5) 34) 20 = (1343, 1492, 1683, 1775)"
    by (simp add: pixel_window_def box_def clamp_x_floor clamp_y_floor px_eq py_eq floor_eq_iff)
  with assms show ?thesis
    by (simp add: extract_window resolve_geometry_def)
qed

lemma extract_whole_grid:
  assumes "ds v = Some a"
  shows "extract_raster_for_geometry ds v (Shape (box (-125) 24 (-66) 50)) 0 =
           Inr (Some (isel a (0, 6434) (0, 2766)), Some (0, 6434, 0, 2766),
                Some (box (-125) 24 (-66) 50))"
proof -
  have "pixel_window (box (-125) 24 (-66) 50) 0 = (0, 6434, 0, 2766)"
    by (simp add: pixel_window_def box_def clamp_x_floor clamp_y_floor px_eq py_eq)
  with assms show ?thesis
    by (simp add: extract_window resolve_geometry_def)
qed

subsection \<open>The store embedding\<close>

lemma deref_new_obj_old:
  "new_obj st ob = (r, st') \<Longrightarrow> r' < length st \<Longrightarrow> deref st' r' = deref st r'"
  by (auto simp: new_obj_def deref_def nth_append)

lemma deref_new_obj_new:
  "new_obj st ob = (r, st') \<Longrightarrow> deref st' r = Some ob \<and> r = length st"
  by (auto simp: new_obj_def deref_def)

lemma deref_Some_less: "deref st r = Some ob \<Longrightarrow> r < length st"
  by (auto simp: deref_def split: if_splits)

lemma geom_at_Some: "geom_at st r = Some g \<longleftrightarrow> deref st r = Some (GeomObj g)"
  by (auto simp: geom_at_def split: option.splits obj.splits)

lemma array_at_Some: "array_at st r = Some a \<longleftrightarrow> deref st r = Some (ArrayObj a)"
  by (auto simp: array_at_def split: option.splits obj.splits)

lemma extract_store_cases:
  assumes "extract_raster_for_geometry_store st ds variable_name geometry buffer_km = (res, st')"
  shows "(st' = st \<and> (\<forall>data window g. res \<noteq> Inr (data, window, Some g)))
       \<or> (\<exists>geom g a v data_vars x_min x_max y_min y_max.
             resolve_ref st geometry = Inr geom \<and> deref st geom = Some (GeomObj g)
           \<and> pixel_window g buffer_km = (x_min, x_max, y_min, y_max)
           \<and> \<not> (x_max \<le> x_min \<or> y_max \<le> y_min)
           \<and> deref st ds = Some (DatasetObj data_vars) \<and> data_vars variable_name = Some v
           \<and> deref st v = Some (ArrayObj a)
           \<and> st' = st @ [ArrayObj (isel a (x_min, x_max) (y_min, y_max))]
           \<and> res = Inr (Some (length st), Some (x_min, x_max, y_min, y_max), Some geom))"
  using assms
  by (auto simp: extract_raster_for_geometry_store_def new_obj_def
           split: sum.splits option.splits obj.splits prod.splits if_splits)


lemma resolve_ref_arg:
  assumes "arg_at st geometry = Some arg"
  shows "(resolve_ref st geometry = Inl IndexError \<and> resolve_geometry arg = Inl IndexError)
       \<or> (\<exists>geom g. resolve_ref st geometry = Inr geom \<and> resolve_geometry arg = Inr g
             \<and> deref st geom = Some (GeomObj g))"
proof (cases "deref st geometry")
  case None
  with assms show ?thesis by (simp add: arg_at_def)
next
  case (Some ob)
  show ?thesis
  proof (cases ob)
    case (GeomObj g)
    with Some assms show ?thesis
      by (auto simp: arg_at_def resolve_ref_def resolve_geometry_def)
  next
    case (FrameObj rows)
    with Some assms have all: "list_all (\<lambda>r'. geom_at st r' \<noteq> None) rows"
      and arg: "arg = Frame (map (\<lambda>r'. the (geom_at st r')) rows)"
      by (auto simp: arg_at_def split: if_splits)
    show ?thesis
    proof (cases rows)
      case Nil
      with Some FrameObj arg show ?thesis
        by (simp add: resolve_ref_def resolve_geometry_def iloc0_def)
    next
      case (Cons r0 rest)
      with all obtain g where "geom_at st r0 = Some g"
        by auto
      with Some FrameObj arg Cons show ?thesis
        by (simp add: resolve_ref_def resolve_geometry_def iloc0_def geom_at_Some)
    qed
  next
    case (HolderObj r')
    with Some assms show ?thesis
      by (auto simp: arg_at_def resolve_ref_def resolve_geometry_def geom_at_Some)
  next
    case (DatasetObj dv)
    with Some assms show ?thesis by (simp add: arg_at_def)
  next
    case (ArrayObj a)
    with Some assms show ?thesis by (simp add: arg_at_def)
  qed
qed

lemma extract_store_refines:
  assumes "arg_at st geometry = Some arg"
    and "deref st ds = Some (DatasetObj data_vars)"
    and "\<And>name v. data_vars name = Some v \<Longrightarrow> array_at st v \<noteq> None"
    and "extract_raster_for_geometry_store st ds variable_name geometry buffer_km = (res, st')"
  shows "result_at st' res =
           extract_raster_for_geometry (dataset_at st data_vars) variable_name arg buffer_km"
proof -
  from resolve_ref_arg[OF assms(1)] consider
    (err) "resolve_ref st geometry = Inl IndexError" "resolve_geometry arg = Inl IndexError"
    | (ok) geom g where "resolve_ref st geometry = Inr geom" "resolve_geometry arg = Inr g"
        "deref st geom = Some (GeomObj g)"
    by blast
  then show ?thesis
  proof cases
    case err
    with assms(4) show ?thesis
      by (auto simp: extract_raster_for_geometry_store_def extract_window result_at_def)
  next
    case ok
    obtain x_min x_max y_min y_max where w: "pixel_window g buffer_km = (x_min, x_max, y_min, y_max)"
      by (cases "pixel_window g buffer_km") auto
    show ?thesis
    proof (cases "x_max \<le> x_min \<or> y_max \<le> y_min")
      case True
      with ok w assms(4) show ?thesis
        by (auto simp: extract_raster_for_geometry_store_def extract_window result_at_def)
    next
      case False
      show ?thesis
      proof (cases "data_vars variable_name")
        case None
        with False ok w assms(2,4) show ?thesis
          by (auto simp: extract_raster_for_geometry_store_def extract_window result_at_def
                dataset_at_def)
      next
        case (Some v)
        with assms(3) obtain a where a: "deref st v = Some (ArrayObj a)"
          by (auto simp: array_at_Some)
        from deref_Some_less[OF ok(3)] have lt: "geom < length st" .
        from False ok w assms(2,4) Some a
        have res: "res = Inr (Some (length st), Some (x_min, x_max, y_min, y_max), Some geom)"
          and st': "st' = st @ [ArrayObj (isel a (x_min, x_max) (y_min, y_max))]"
          by (auto simp: extract_raster_for_geometry_store_def new_obj_def)
        have "array_at st' (length st) = Some (isel a (x_min, x_max) (y_min, y_max))"
          by (simp add: array_at_Some st' deref_def)
        moreover have "geom_at st' geom = Some g"
          using ok(3) lt by (simp add: geom_at_Some st' deref_def nth_append)
        moreover have "dataset_at st data_vars variable_name = Some a"
          using Some a by (simp add: dataset_at_def array_at_Some)
        ultimately show ?thesis
          using False ok(2) w
          by (simp add: res result_at_def extract_window)
      qed
    qed
  qed
qed

section \<open>Claims\<close>

subsection \<open>Window validity\<close>

text \<open>
  C1. Whenever \<^verbatim>\<open>extract_raster_for_geometry\<close> returns a pixel window
  \<open>(x_min, x_max, y_min, y_max)\<close>, its components are integers with
  \<open>0 \<le> x_min < x_max \<le> GRID_WIDTH\<close> and \<open>0 \<le> y_min < y_max \<le> GRID_HEIGHT\<close>
  (6435 and 2767). This holds for every dataset, variable name, geometry and buffer, in
  particular for the geometries intersecting the Grid extent and the buffers
  \<open>buffer_km \<ge> 0\<close> of the claim.
\<close>

theorem window_validity:
  assumes "extract_raster_for_geometry ds variable_name geometry buffer_km =
             Inr (data, Some (x_min, x_max, y_min, y_max), geom)"
  shows "0 \<le> x_min \<and> x_min < x_max \<and> x_max \<le> GRID_WIDTH
       \<and> 0 \<le> y_min \<and> y_min < y_max \<and> y_max \<le> GRID_HEIGHT"
proof -
  from extract_success[OF assms] obtain g where
    w: "pixel_window g buffer_km = (x_min, x_max, y_min, y_max)"
    and lt: "x_min < x_max" "y_min < y_max"
    by blast
  from pixel_window_bounds[OF w] lt show ?thesis
    by simp
qed

theorem window_validity_witness:
  "extract_raster_for_geometry [''LCZ_2020'' \<mapsto> [[1::int]]] ''LCZ_2020''
       (Shape (box (-112.5) 33.5 (-111.5) 34)) 5
     = Inr (Some [], Some (1358, 1477, 1697, 1760), Some (box (-112.5) 33.5 (-111.5) 34))
   \<and> (0::int) \<le> 1358 \<and> (1358::int) < 1477 \<and> 1477 \<le> GRID_WIDTH
   \<and> (0::int) \<le> 1697 \<and> (1697::int) < 1760 \<and> 1760 \<le> GRID_HEIGHT"
proof -
  have h: "extract_raster_for_geometry [''LCZ_2020'' \<mapsto> [[1::int]]] ''LCZ_2020''
       (Shape (box (-112.5) 33.5 (-111.5) 34)) 5
     = Inr (Some [], Some (1358, 1477, 1697, 1760), Some (box (-112.5) 33.5 (-111.5) 34))"
    using extract_box_5[of "[''LCZ_2020'' \<mapsto> [[1::int]]]" "''LCZ_2020''" "[[1]]"]
    by (simp add: isel_def py_slice_def slice_index_def)
  from window_validity[OF h] h show ?thesis
    by simp
qed

subsection \<open>Round trip of the coordinate transform\<close>

text \<open>
  C4. Composing the two transforms is the identity:
  \<^verbatim>\<open>pixel_to_lonlat(*lonlat_to_pixel(lon, lat)) = (lon, lat)\<close>, exactly, over the
  rationals. It holds for every \<open>(lon, lat)\<close>, so in particular inside the Grid extent.
\<close>

theorem round_trip:
  "(case lonlat_to_pixel lon lat of (px, py) \<Rightarrow> pixel_to_lonlat px py) = (lon, lat)"
  by (simp add: pixel_to_lonlat_def lonlat_to_pixel_def grid_defs field_simps)

subsection \<open>Null results\<close>

text \<open>
  C2. For a geometry argument that resolves to a geometry (a bare geometry always does; a
  frame does when it has a first row), the extractor returns the all-null triple exactly
  when the variable is absent from the dataset or the clamped window is degenerate
  (\<open>x_max \<le> x_min\<close> or \<open>y_max \<le> y_min\<close>); in every other case it returns a triple
  whose three components are all present. No partially filled triple is returned.
\<close>

theorem null_result_iff:
  assumes "resolve_geometry geometry = Inr geom"
    and "pixel_window geom buffer_km = (x_min, x_max, y_min, y_max)"
  shows "(extract_raster_for_geometry ds variable_name geometry buffer_km = Inr (None, None, None)
            \<longleftrightarrow> ds variable_name = None \<or> x_max \<le> x_min \<or> y_max \<le> y_min)
       \<and> (extract_raster_for_geometry ds variable_name geometry buffer_km = Inr (None, None, None)
            \<or> (\<exists>data window g.
                  extract_raster_for_geometry ds variable_name geometry buffer_km
                    = Inr (Some data, Some window, Some g)))"
  using assms by (auto simp: extract_window split: option.splits)

theorem null_result_iff_witness:
  "resolve_geometry (Shape (box (-112.5) 33.5 (-111.5) 34)) = Inr (box (-112.5) 33.5 (-111.5) 34)
   \<and> pixel_window (box (-112.5) 33.5 (-111.5) 34) 5 = (1358, 1477, 1697, 1760)
   \<and> extract_raster_for_geometry (Map.empty :: int dataset) ''LCZ_2020''
        (Shape (box (-112.5) 33.5 (-111.5) 34)) 5 = Inr (None, None, None)
   \<and> extract_raster_for_geometry [''LCZ_2020'' \<mapsto> [[1::int]]] ''LCZ_2020''
        (Shape (box (-112.5) 33.5 (-111.5) 34)) 5 \<noteq> Inr (None, None, None)"
proof -
  have r: "resolve_geometry (Shape (box (-112.5) 33.5 (-111.5) 34))
             = Inr (box (-112.5) 33.5 (-111.5) 34)"
    by (simp add: resolve_geometry_def)
  have w: "pixel_window (box (-112.5) 33.5 (-111.5) 34) 5 = (1358, 1477, 1697, 1760)"
    by (simp add: pixel_window_def box_def clamp_x_floor clamp_y_floor px_eq py_eq floor_eq_iff)
  from null_result_iff[OF r w, of "Map.empty :: int dataset" "''LCZ_2020''"]
       null_result_iff[OF r w, of "[''LCZ_2020'' \<mapsto> [[1::int]]]" "''LCZ_2020''"] r w
  show ?thesis
    by simp
qed

subsection \<open>Shape consistency\<close>

text \<open>
  C3. When the named variable is a 2-D array of the Grid shape (2767 rows of 6435
  columns) and the extractor returns data with the window \<open>(x_min, x_max, y_min, y_max)\<close>,
  the shape of the data is \<open>(y_max - y_min, x_max - x_min)\<close>.
\<close>

theorem shape_consistency:
  assumes "ds variable_name = Some var" and "grid_shaped var"
    and "extract_raster_for_geometry ds variable_name geometry buffer_km
           = Inr (Some data, Some (x_min, x_max, y_min, y_max), geom)"
  shows "shape data = (y_max - y_min, x_max - x_min)"
proof -
  from extract_success[OF assms(3)] assms(1) obtain g where
    w: "pixel_window g buffer_km = (x_min, x_max, y_min, y_max)"
    and lt: "x_min < x_max" "y_min < y_max"
    and d: "data = isel var (x_min, x_max) (y_min, y_max)"
    by auto
  from pixel_window_bounds[OF w] lt assms(2) show ?thesis
    unfolding d by (intro isel_shape) simp_all
qed

theorem shape_consistency_witness:
  "grid_shaped (replicate 2767 (replicate 6435 (0::int)))
   \<and> extract_raster_for_geometry [''LCZ_2020'' \<mapsto> replicate 2767 (replicate 6435 (0::int))]
        ''LCZ_2020'' (Shape (box (-112.5) 33.5 (-111.5) 34)) 5
      = Inr (Some (isel (replicate 2767 (replicate 6435 0)) (1358, 1477) (1697, 1760)),
             Some (1358, 1477, 1697, 1760), Some (box (-112.5) 33.5 (-111.5) 34))
   \<and> shape (isel (replicate 2767 (replicate 6435 (0::int))) (1358, 1477) (1697, 1760)) = (63, 119)"
proof -
  let ?a = "replicate 2767 (replicate 6435 (0::int))"
  let ?ds = "[''LCZ_2020'' \<mapsto> ?a]"
  have v: "?ds ''LCZ_2020'' = Some ?a"
    by simp
  have g: "grid_shaped ?a"
    by (simp add: grid_shaped_def grid_defs list_all_iff)
  note h = extract_box_5[of ?ds "''LCZ_2020''" ?a, OF v]
  from shape_consistency[OF v g h] g h show ?thesis
    by simp
qed

subsection \<open>Monotonic buffer\<close>

text \<open>
  C5. For a fixed dataset, variable and geometry and buffers \<open>b1 \<le> b2\<close>, if both
  extractions return a window then the window of \<open>b2\<close> contains the window of \<open>b1\<close>:
  \<open>x_min2 \<le> x_min1\<close>, \<open>x_max1 \<le> x_max2\<close>, \<open>y_min2 \<le> y_min1\<close>, \<open>y_max1 \<le> y_max2\<close>.
  The bound \<open>0 \<le> b1\<close> of the claim is not needed.
\<close>

theorem monotonic_buffer:
  assumes "b1 \<le> b2"
    and "extract_raster_for_geometry ds variable_name geometry b1
           = Inr (data1, Some (x_min1, x_max1, y_min1, y_max1), geom1)"
    and "extract_raster_for_geometry ds variable_name geometry b2
           = Inr (data2, Some (x_min2, x_max2, y_min2, y_max2), geom2)"
  shows "x_min2 \<le> x_min1 \<and> x_max1 \<le> x_max2 \<and> y_min2 \<le> y_min1 \<and> y_max1 \<le> y_max2"
proof -
  from extract_success[OF assms(2)] obtain g where
    r1: "resolve_geometry geometry = Inr g"
    and w1: "pixel_window g b1 = (x_min1, x_max1, y_min1, y_max1)"
    by blast
  from extract_success[OF assms(3)] obtain g' where
    r2: "resolve_geometry geometry = Inr g'"
    and w2: "pixel_window g' b2 = (x_min2, x_max2, y_min2, y_max2)"
    by blast
  from r1 r2 have "g' = g"
    by simp
  with w2 have "pixel_window g b2 = (x_min2, x_max2, y_min2, y_max2)"
    by simp
  from pixel_window_mono[OF assms(1) w1 this] show ?thesis .
qed

theorem monotonic_buffer_witness:
  "extract_raster_for_geometry [''LCZ_2020'' \<mapsto> [[1::int]]] ''LCZ_2020''
       (Shape (box (-112.5) 33.5 (-111.5) 34)) 5
     = Inr (Some [], Some (1358, 1477, 1697, 1760), Some (box (-112.5) 33.5 (-111.5) 34))
   \<and> extract_raster_for_geometry [''LCZ_2020'' \<mapsto> [[1::int]]] ''LCZ_2020''
       (Shape (box (-112.5) 33.5 (-111.5) 34)) 20
     = Inr (Some [], Some (1343, 1492, 1683, 1775), Some (box (-112.5) 33.5 (-111.5) 34))
   \<and> (1343::int) \<le> 1358 \<and> (1477::int) \<le> 1492 \<and> (1683::int) \<le> 1697 \<and> (1760::int) \<le> 1775"
proof -
  let ?ds = "[''LCZ_2020'' \<mapsto> [[1::int]]]"
  have v: "?ds ''LCZ_2020'' = Some [[1]]"
    by simp
  have h1: "extract_raster_for_geometry ?ds ''LCZ_2020'' (Shape (box (-112.5) 33.5 (-111.5) 34)) 5
     = Inr (Some [], Some (1358, 1477, 1697, 1760), Some (box (-112.5) 33.5 (-111.5) 34))"
    using extract_box_5[of ?ds "''LCZ_2020''" "[[1]]", OF v] by (simp add: isel_def py_slice_def slice_index_def)
  have h2: "extract_raster_for_geometry ?ds ''LCZ_2020'' (Shape (box (-112.5) 33.5 (-111.5) 34)) 20
     = Inr (Some [], Some (1343, 1492, 1683, 1775), Some (box (-112.5) 33.5 (-111.5) 34))"
    using extract_box_20[of ?ds "''LCZ_2020''" "[[1]]", OF v] by (simp add: isel_def py_slice_def slice_index_def)
  have le: "(5::rat) \<le> 20"
    by simp
  from monotonic_buffer[OF le h1 h2] h1 h2 show ?thesis
    by simp
qed

subsection \<open>Degenerate rejection\<close>

text \<open>
  C6. For a geometry whose bounding box lies entirely outside the Grid extent (wholly
  west, east, south or north of it, as a box in the Southern Hemisphere is), extraction
  with \<open>buffer_km = 0\<close> returns the null result, for every dataset and variable name.
\<close>

theorem degenerate_rejection:
  assumes "resolve_geometry geometry = Inr geom" and "bbox_outside (bounds geom)"
  shows "extract_raster_for_geometry ds variable_name geometry 0 = Inr (None, None, None)"
proof -
  obtain x_min x_max y_min y_max where w: "pixel_window geom 0 = (x_min, x_max, y_min, y_max)"
    by (cases "pixel_window geom 0") auto
  from pixel_window_outside[OF assms(2) w] assms(1) w show ?thesis
    by (auto simp: extract_window)
qed

theorem degenerate_rejection_witness:
  "resolve_geometry (Shape (box (-70) (-40) (-60) (-30))) = Inr (box (-70) (-40) (-60) (-30))
   \<and> bbox_outside (bounds (box (-70) (-40) (-60) (-30)))
   \<and> extract_raster_for_geometry [''LCZ_2020'' \<mapsto> [[1::int]]] ''LCZ_2020''
        (Shape (box (-70) (-40) (-60) (-30))) 0 = Inr (None, None, None)"
proof -
  have r: "resolve_geometry (Shape (box (-70) (-40) (-60) (-30))) = Inr (box (-70) (-40) (-60) (-30))"
    by (simp add: resolve_geometry_def)
  have o: "bbox_outside (bounds (box (-70) (-40) (-60) (-30)))"
    by (simp add: bbox_outside_def box_def grid_defs)
  from degenerate_rejection[OF r o, of "[''LCZ_2020'' \<mapsto> [[1::int]]]" "''LCZ_2020''"] r o
  show ?thesis
    by simp
qed

subsection \<open>The scenario box\<close>

text \<open>
  The scenario of C7 as it is stated asks for a window roughly 65 pixels wide. At a
  dataset holding the variable, the extractor returns a window 119 pixels wide, which is
  not within 50 pixels of 65.
\<close>

theorem scenario_box_counterexample:
  "extract_raster_for_geometry [''LCZ_2020'' \<mapsto> [[1::int]]] ''LCZ_2020''
       (Shape (box (-112.5) 33.5 (-111.5) 34)) 5
     = Inr (Some [], Some (1358, 1477, 1697, 1760), Some (box (-112.5) 33.5 (-111.5) 34))
   \<and> (1477::int) - 1358 = 119
   \<and> \<not> \<bar>(1477::int) - 1358 - 65\<bar> \<le> 50"
proof -
  have "[''LCZ_2020'' \<mapsto> [[1::int]]] ''LCZ_2020'' = Some [[1]]"
    by simp
  from extract_box_5[of "[''LCZ_2020'' \<mapsto> [[1::int]]]" "''LCZ_2020''" "[[1]]", OF this]
  show ?thesis
    by (simp add: isel_def py_slice_def slice_index_def)
qed

text \<open>
  C7 (as amended). On the Grid of longitude [-125, -66], latitude [24, 50] and size
  6435 by 2767, extracting for the box with lon in [-112.5, -111.5] and lat in
  [33.5, 34.0] with \<open>buffer_km = 5\<close> and a variable present in the dataset returns the
  pixel window (1358, 1477, 1697, 1760), with \<open>x_min < x_max\<close> and \<open>y_min < y_max\<close>: it is
  119 pixels wide and 63 pixels high.

  The window is not roughly 65 pixels wide: one degree of longitude is 6435 / 59, about
  109 pixels, and the width misses 65 by 54 pixels. It is the height of the window that
  is close to 65.
\<close>

theorem scenario_box:
  assumes "ds variable_name = Some var"
  shows "extract_raster_for_geometry ds variable_name (Shape (box (-112.5) 33.5 (-111.5) 34)) 5
           = Inr (Some (isel var (1358, 1477) (1697, 1760)), Some (1358, 1477, 1697, 1760),
                  Some (box (-112.5) 33.5 (-111.5) 34))
         \<and> (1358::int) < 1477 \<and> (1697::int) < 1760
         \<and> (1477::int) - 1358 = 119 \<and> (1760::int) - 1697 = 63"
  using extract_box_5[of ds variable_name var, OF assms] by simp

theorem scenario_box_witness:
  "[''LCZ_2020'' \<mapsto> [[1::int]]] ''LCZ_2020'' = Some [[1]]
   \<and> extract_raster_for_geometry [''LCZ_2020'' \<mapsto> [[1::int]]] ''LCZ_2020''
       (Shape (box (-112.5) 33.5 (-111.5) 34)) 5
     = Inr (Some (isel [[1]] (1358, 1477) (1697, 1760)), Some (1358, 1477, 1697, 1760),
            Some (box (-112.5) 33.5 (-111.5) 34))"
proof -
  have v: "[''LCZ_2020'' \<mapsto> [[1::int]]] ''LCZ_2020'' = Some [[1]]"
    by simp
  from scenario_box[of "[''LCZ_2020'' \<mapsto> [[1::int]]]" "''LCZ_2020''" "[[1]]", OF v] v
  show ?thesis
    by simp
qed

subsection \<open>Geometry-to-pixel projector\<close>

text \<open>
  C8. The claim asks that \<^verbatim>\<open>geometry_to_pixel_coords\<close> return the empty sequence,
  and never signal an error, for a geometry exposing neither an exterior ring nor a
  coordinate sequence. The code does not: at a multi-part geometry, which has no
  \<^verbatim>\<open>exterior\<close> and whose \<^verbatim>\<open>coords\<close> raises
  \<^verbatim>\<open>NotImplementedError\<close> when read, the probe
  \<^verbatim>\<open>hasattr(geometry, 'coords')\<close> lets the exception through and the
  \<^verbatim>\<open>else: return []\<close> branch is never reached; and at a vertex with three
  components the unpacking \<^verbatim>\<open>for lon, lat in coords\<close> raises
  \<^verbatim>\<open>ValueError\<close>. On the other geometries the projector does what the claim
  says (\<open>projector_maps_vertices\<close>).
\<close>

theorem projector_raises:
  "geometry_to_pixel_coords
      \<lparr> bounds = (-112.5, 33.5, -111.5, 34), exterior = Absent,
        coords = Raises NotImplementedError \<rparr> 1358 1697 = Inl NotImplementedError
   \<and> geometry_to_pixel_coords
      \<lparr> bounds = (-112, 34, -112, 34), exterior = Absent,
        coords = Present [[-112, 34, 350]] \<rparr> 1358 1697 = Inl ValueError"
  by (simp add: geometry_to_pixel_coords_def)

subsection \<open>Inputs are left unchanged\<close>

text \<open>
  C9. A call of \<^verbatim>\<open>extract_raster_for_geometry\<close> changes no object that existed
  before the call: the dataset, its arrays and the query geometry are afterwards what
  they were, and the only change to the store is the new array of the result. On success
  the third component of the result is a reference to the geometry object the argument
  resolves to, the very object and not a copy, with its bounds as they were given and
  not enlarged by the buffer: for a bare geometry, the argument itself.
\<close>

theorem inputs_unchanged:
  assumes "extract_raster_for_geometry_store st ds variable_name geometry buffer_km = (res, st')"
  shows "(\<forall>r. r < length st \<longrightarrow> deref st' r = deref st r)
       \<and> (\<forall>data window g. res = Inr (data, window, Some g) \<longrightarrow>
            resolve_ref st geometry = Inr g
            \<and> (\<exists>gm. deref st g = Some (GeomObj gm) \<and> deref st' g = Some (GeomObj gm))
            \<and> (\<forall>gm. deref st geometry = Some (GeomObj gm) \<longrightarrow> g = geometry))"
proof -
  from extract_store_cases[OF assms] show ?thesis
  proof (elim disjE exE conjE)
    assume "st' = st" and "\<forall>data window g. res \<noteq> Inr (data, window, Some g)"
    then show ?thesis by simp
  next
    fix geom g a v data_vars x_min x_max y_min y_max
    assume r: "resolve_ref st geometry = Inr geom"
      and d: "deref st geom = Some (GeomObj g)"
      and st': "st' = st @ [ArrayObj (isel a (x_min, x_max) (y_min, y_max))]"
      and res: "res = Inr (Some (length st), Some (x_min, x_max, y_min, y_max), Some geom)"
    from deref_Some_less[OF d] have lt: "geom < length st" .
    have old: "\<forall>r. r < length st \<longrightarrow> deref st' r = deref st r"
      by (simp add: st' deref_def nth_append)
    moreover from old lt d have "deref st' geom = Some (GeomObj g)"
      by simp
    moreover have "\<forall>gm. deref st geometry = Some (GeomObj gm) \<longrightarrow> geom = geometry"
      using r by (auto simp: resolve_ref_def)
    ultimately show ?thesis
      using r d res by auto
  qed
qed

theorem inputs_unchanged_witness:
  "extract_raster_for_geometry_store
      [DatasetObj [''LCZ_2020'' \<mapsto> 1], ArrayObj [[1::int]],
       GeomObj (box (-112.5) 33.5 (-111.5) 34)] 0 ''LCZ_2020'' 2 5
     = (Inr (Some 3, Some (1358, 1477, 1697, 1760), Some 2),
        [DatasetObj [''LCZ_2020'' \<mapsto> 1], ArrayObj [[1::int]],
         GeomObj (box (-112.5) 33.5 (-111.5) 34), ArrayObj []])
   \<and> resolve_ref [DatasetObj [''LCZ_2020'' \<mapsto> 1], ArrayObj [[1::int]],
         GeomObj (box (-112.5) 33.5 (-111.5) 34)] 2 = Inr 2
   \<and> deref [DatasetObj [''LCZ_2020'' \<mapsto> 1], ArrayObj [[1::int]],
         GeomObj (box (-112.5) 33.5 (-111.5) 34), ArrayObj []] 2
       = Some (GeomObj (box (-112.5) 33.5 (-111.5) 34))
   \<and> bounds (box (-112.5) 33.5 (-111.5) 34) = (-112.5, 33.5, -111.5, 34)"
proof -
  let ?st = "[DatasetObj [''LCZ_2020'' \<mapsto> 1], ArrayObj [[1::int]],
              GeomObj (box (-112.5) 33.5 (-111.5) 34)]"
  have w: "pixel_window (box (-112.5) 33.5 (-111.5) 34) 5 = (1358, 1477, 1697, 1760)"
    by (simp add: pixel_window_def box_def clamp_x_floor clamp_y_floor px_eq py_eq floor_eq_iff)
  have h: "extract_raster_for_geometry_store ?st 0 ''LCZ_2020'' 2 5
     = (Inr (Some 3, Some (1358, 1477, 1697, 1760), Some 2), ?st @ [ArrayObj []])"
    using w
    by (simp add: extract_raster_for_geometry_store_def resolve_ref_def deref_def new_obj_def
          isel_def py_slice_def slice_index_def)
  from inputs_unchanged[OF h] h show ?thesis
    by (simp add: box_def deref_def resolve_ref_def)
qed

subsection \<open>The last column and row\<close>

text \<open>
  C10. Whenever a window \<open>(x_min, x_max, y_min, y_max)\<close> is returned,
  \<open>x_max \<le> GRID_WIDTH - 1\<close> (6434) and \<open>y_max \<le> GRID_HEIGHT - 1\<close> (2766), so no pixel
  column \<open>i\<close> of the window (\<open>x_min \<le> i < x_max\<close>) is the easternmost column
  \<open>GRID_WIDTH - 1\<close> and no pixel row of it is the southernmost row \<open>GRID_HEIGHT - 1\<close>.
  The witness is a box covering the whole Grid: its window is (0, 6434, 0, 2766) and the
  extracted array has 2766 rows of 6434 columns.
\<close>

theorem last_column_and_row_excluded:
  assumes "extract_raster_for_geometry ds variable_name geometry buffer_km =
             Inr (data, Some (x_min, x_max, y_min, y_max), geom)"
  shows "x_max \<le> GRID_WIDTH - 1 \<and> y_max \<le> GRID_HEIGHT - 1
       \<and> (\<forall>i. x_min \<le> i \<and> i < x_max \<longrightarrow> i \<noteq> GRID_WIDTH - 1)
       \<and> (\<forall>j. y_min \<le> j \<and> j < y_max \<longrightarrow> j \<noteq> GRID_HEIGHT - 1)"
proof -
  from extract_success[OF assms] obtain g where
    w: "pixel_window g buffer_km = (x_min, x_max, y_min, y_max)"
    by blast
  from pixel_window_bounds[OF w] show ?thesis
    by auto
qed

theorem last_column_and_row_excluded_witness:
  "extract_raster_for_geometry [''LCZ_2020'' \<mapsto> replicate 2767 (replicate 6435 (0::int))]
       ''LCZ_2020'' (Shape (box (-125) 24 (-66) 50)) 0
     = Inr (Some (isel (replicate 2767 (replicate 6435 0)) (0, 6434) (0, 2766)),
            Some (0, 6434, 0, 2766), Some (box (-125) 24 (-66) 50))
   \<and> shape (isel (replicate 2767 (replicate 6435 (0::int))) (0, 6434) (0, 2766)) = (2766, 6434)
   \<and> (6434::int) \<le> GRID_WIDTH - 1 \<and> (2766::int) \<le> GRID_HEIGHT - 1"
proof -
  let ?a = "replicate 2767 (replicate 6435 (0::int))"
  let ?ds = "[''LCZ_2020'' \<mapsto> ?a]"
  have v: "?ds ''LCZ_2020'' = Some ?a"
    by simp
  have g: "grid_shaped ?a"
    by (simp add: grid_shaped_def grid_defs list_all_iff)
  have sh: "shape (isel ?a (0, 6434) (0, 2766)) = (2766 - 0, 6434 - 0)"
    using g by (intro isel_shape) (simp_all add: grid_defs)
  note h = extract_whole_grid[of ?ds "''LCZ_2020''" ?a, OF v]
  from last_column_and_row_excluded[OF h] h sh show ?thesis
    by simp
qed

end
